theory Spec2Isabelle
  imports Complex_Main "HOL-Library.Log_Nat"
begin

section \<open>JavaScript values, requests and rendered text\<close>

text \<open>
  A JavaScript number is a double. It is modelled by the rational it denotes, with
  \<open>2 ^ 1024\<close> and \<open>- 2 ^ 1024\<close> standing for the two infinities; there is no NaN,
  which no number of a JSON response is. Comparisons, \<open>Math.min\<close> and \<open>Math.max\<close> are
  exact on doubles. A product is rounded where a comparison depends on it
  (\<open>js_mul\<close>, for the scores of the home page); the quotient and the product of the
  Accuracy statistic, which are only displayed to one decimal place, are kept exact.
  A value that may be \<open>undefined\<close> or \<open>null\<close> is an \<open>option\<close>.
\<close>

type_synonym number = rat

subsection \<open>Double arithmetic\<close>

text \<open>Rounding to the nearest integer, a tie going to the even one.\<close>

definition round_half_even :: "rat \<Rightarrow> int" where
  "round_half_even q =
     (let n = \<lfloor>q\<rfloor>; d = q - of_int n
      in if d < 1 / 2 then n else if 1 / 2 < d then n + 1 else if even n then n else n + 1)"

text \<open>The binary exponent of a positive rational: \<open>2 powi binade x \<le> x < 2 powi (binade x + 1)\<close>.\<close>

definition binade :: "rat \<Rightarrow> int" where
  "binade x =
     (case quotient_of x of
        (p, q) \<Rightarrow> let e = bitlen p - bitlen q in if 2 powi e \<le> x then e else e - 1)"

text \<open>
  The distance between the doubles around a positive \<open>x\<close>: 53 significant bits, and the
  subnormal spacing \<open>2 powi - 1074\<close> below the smallest normal exponent.
\<close>

definition ulp :: "rat \<Rightarrow> rat" where
  "ulp x = 2 powi (max (binade x) (- 1022) - 52)"

definition nearest :: "rat \<Rightarrow> rat" where
  "nearest x = of_int (round_half_even (x / ulp x)) * ulp x"

text \<open>
  IEEE 754 rounding of a positive rational to a double, to nearest with ties to even: a
  result of \<open>2 ^ 1024\<close> or more is the infinity.
\<close>

definition round_double :: "rat \<Rightarrow> rat" where
  "round_double x = min (2 ^ 1024) (nearest x)"

definition fl :: "rat \<Rightarrow> rat" where
  "fl x = (if x = 0 then 0 else if 0 < x then round_double x else - round_double (- x))"

text \<open>The product of two doubles, as \<open>*\<close> computes it: the exact product, rounded.\<close>

definition js_mul :: "number \<Rightarrow> number \<Rightarrow> number" where
  "js_mul a b = fl (a * b)"

subsection \<open>JSON values and rendered text\<close>

datatype json =
    JNull
  | JBool bool
  | JNum number
  | JStr string
  | JArr "json list"
  | JObj "(string \<times> json) list"

text \<open>
  Text put on the screen is a list of fragments. The conversions the JavaScript runtime
  applies when a value is turned into a string are kept symbolic: \<open>Num x\<close> is
  \<open>String(x)\<close> of a number, \<open>Fixed1 x\<close> is \<open>x.toFixed(1)\<close>, \<open>Interp v\<close> is
  \<open>String(v)\<close> of an untyped value (\<open>None\<close> is \<open>undefined\<close>), \<open>Stringify v\<close> is
  \<open>JSON.stringify(v)\<close> and \<open>Join sep xs\<close> is \<open>xs.join(sep)\<close>.
\<close>

datatype frag =
    Lit string
  | Num number
  | Fixed1 number
  | Interp "json option"
  | Stringify json
  | Join string "json list"

type_synonym rendered = "frag list"

text \<open>The non-ASCII characters of the source, as their UTF-8 bytes.\<close>

definition em_dash :: string where
  "em_dash = [CHR 0xE2, CHR 0x80, CHR 0x94]"

definition bullet :: string where
  "bullet = [CHR 0xE2, CHR 0x80, CHR 0xA2]"

definition cross_mark :: string where
  "cross_mark = [CHR 0xE2, CHR 0x9D, CHR 0x8C]"

text \<open>
  Reading a property of a parsed JSON value that is not \<open>null\<close>: an object gives the
  member of that name (the keys of a parsed object are unique), anything else has no
  member of the names read here (\<open>None\<close> is \<open>undefined\<close>).
\<close>

fun js_prop :: "json \<Rightarrow> string \<Rightarrow> json option" where
  "js_prop (JObj fs) k = map_of fs k"
| "js_prop _ k = None"

fun truthy :: "json \<Rightarrow> bool" where
  "truthy JNull = False"
| "truthy (JBool b) = b"
| "truthy (JNum n) = (n \<noteq> 0)"
| "truthy (JStr s) = (s \<noteq> [])"
| "truthy (JArr xs) = True"
| "truthy (JObj fs) = True"

definition truthy_opt :: "json option \<Rightarrow> bool" where
  "truthy_opt v = (case v of None \<Rightarrow> False | Some x \<Rightarrow> truthy x)"

text \<open>
  A string is the list of the bytes of its UTF-8 encoding. The white space and the line
  terminators of ECMAScript, which \<open>String.prototype.trim\<close> strips, are these code
  points, each given by its bytes: U+0009 to U+000D, U+0020, U+00A0, U+1680, U+2000 to
  U+200A, U+2028, U+2029, U+202F, U+205F, U+3000 and U+FEFF.
\<close>

definition white_space :: "string list" where
  "white_space =
     [[CHR 0x09], [CHR 0x0A], [CHR 0x0B], [CHR 0x0C], [CHR 0x0D], [CHR 0x20],
      [CHR 0xC2, CHR 0xA0],
      [CHR 0xE1, CHR 0x9A, CHR 0x80],
      [CHR 0xE2, CHR 0x80, CHR 0x80], [CHR 0xE2, CHR 0x80, CHR 0x81],
      [CHR 0xE2, CHR 0x80, CHR 0x82], [CHR 0xE2, CHR 0x80, CHR 0x83],
      [CHR 0xE2, CHR 0x80, CHR 0x84], [CHR 0xE2, CHR 0x80, CHR 0x85],
      [CHR 0xE2, CHR 0x80, CHR 0x86], [CHR 0xE2, CHR 0x80, CHR 0x87],
      [CHR 0xE2, CHR 0x80, CHR 0x88], [CHR 0xE2, CHR 0x80, CHR 0x89],
      [CHR 0xE2, CHR 0x80, CHR 0x8A],
      [CHR 0xE2, CHR 0x80, CHR 0xA8], [CHR 0xE2, CHR 0x80, CHR 0xA9],
      [CHR 0xE2, CHR 0x80, CHR 0xAF],
      [CHR 0xE2, CHR 0x81, CHR 0x9F],
      [CHR 0xE3, CHR 0x80, CHR 0x80],
      [CHR 0xEF, CHR 0xBB, CHR 0xBF]]"

text \<open>
  \<open>strip ws s\<close> removes from the front of \<open>s\<close> every leading occurrence of a sequence
  of \<open>ws\<close>. In well-formed UTF-8 no code point's bytes end or begin inside another's, so
  stripping the reversed sequences from the reversed string strips the end.
\<close>

function strip :: "string list \<Rightarrow> string \<Rightarrow> string" where
  "strip ws s =
     (case find (\<lambda>w. w \<noteq> [] \<and> take (length w) s = w) ws of
        None \<Rightarrow> s
      | Some w \<Rightarrow> strip ws (drop (length w) s))"
  by pat_completeness auto
termination
proof (relation "measure (\<lambda>(ws, s). length s)")
  show "wf (measure (\<lambda>(ws, s). length s))" by simp
next
  fix ws :: "string list" and s w :: string
  assume "find (\<lambda>w. w \<noteq> [] \<and> take (length w) s = w) ws = Some w"
  then have w: "w \<noteq> []" "take (length w) s = w" by (auto simp: find_Some_iff)
  then have "s \<noteq> []" by auto
  with w(1) show "((ws, drop (length w) s), (ws, s)) \<in> measure (\<lambda>(ws, s). length s)"
    by simp
qed

declare strip.simps [simp del]

definition trimStart :: "string \<Rightarrow> string" where
  "trimStart s = strip white_space s"

definition trimEnd :: "string \<Rightarrow> string" where
  "trimEnd s = rev (strip (map rev white_space) (rev s))"

definition trim :: "string \<Rightarrow> string" where
  "trim s = trimEnd (trimStart s)"

subsection \<open>Requests, effects, the browser\<close>

datatype http_method = GET | POST

text \<open>
  A request as axios and \<open>fetch\<close> receive it: \<open>req_baseURL\<close> is the \<open>baseURL\<close> of the
  axios instance (\<open>None\<close> for \<open>fetch\<close>), \<open>req_data\<close> is the value that is serialised
  into the JSON body.
\<close>

record request =
  req_method :: http_method
  req_baseURL :: "string option"
  req_url :: string
  req_headers :: "(string \<times> string) list"
  req_data :: "json option"
  req_withCredentials :: bool

text \<open>
  What an operation does to the outside, in the order it does it. \<open>SetInnerHTML\<close> and
  \<open>Notification\<close> are the two ways the extension presents a result.
\<close>

datatype effect =
    Fetch request
  | SetItem string string
  | RemoveItem string
  | RouterPush string
  | ConsoleError
  | SetInnerHTML string rendered
  | Notification string rendered

fun requests :: "effect list \<Rightarrow> request list" where
  "requests [] = []"
| "requests (Fetch r # es) = r # requests es"
| "requests (_ # es) = requests es"

record browser =
  NEXT_PUBLIC_API_BASE :: "string option"
  window_defined :: bool
  localStorage :: "string \<rightharpoonup> string"

text \<open>
  The answer to a request: the promise resolves with the typed response data, or rejects
  with an error \<open>e\<close>, of which the code reads \<open>e?.response?.data?.detail\<close> only.
\<close>

datatype 'a outcome = Resolved 'a | Rejected "json option"

text \<open>The path of a URL: an absolute URL loses its scheme and authority.\<close>

definition url_path :: "string \<Rightarrow> string" where
  "url_path u =
     (if take 7 u = ''http://'' then dropWhile (\<lambda>c. c \<noteq> CHR ''/'') (drop 7 u)
      else if take 8 u = ''https://'' then dropWhile (\<lambda>c. c \<noteq> CHR ''/'') (drop 8 u)
      else u)"

definition request_path :: "request \<Rightarrow> string" where
  "request_path r = url_path (req_url r)"

section \<open>lib/api.ts\<close>

record StatsResponse =
  total_users :: number
  total_analyses :: number
  total_real :: number
  total_fake :: number
  total_uncertain :: number
  total_reviews :: number
  correct_votes :: number

definition API_BASE :: "browser \<Rightarrow> string" where
  "API_BASE b =
     (case NEXT_PUBLIC_API_BASE b of
        None \<Rightarrow> ''https://abdullahniyaxi-deepverify-backend.hf.space''
      | Some s \<Rightarrow> if s = [] then ''https://abdullahniyaxi-deepverify-backend.hf.space'' else s)"

text \<open>The request interceptor adds the bearer token that is in \<open>localStorage\<close>.\<close>

definition interceptor :: "browser \<Rightarrow> request \<Rightarrow> request" where
  "interceptor b config =
     (if window_defined b
      then (case localStorage b ''access_token'' of
              None \<Rightarrow> config
            | Some token \<Rightarrow>
                if token = [] then config
                else config\<lparr>req_headers :=
                       req_headers config @ [(''Authorization'', ''Bearer '' @ token)]\<rparr>)
      else config)"

definition api_get :: "browser \<Rightarrow> string \<Rightarrow> request" where
  "api_get b path =
     interceptor b
       \<lparr> req_method = GET, req_baseURL = Some (API_BASE b), req_url = path,
         req_headers = [], req_data = None, req_withCredentials = True \<rparr>"

definition api_post :: "browser \<Rightarrow> string \<Rightarrow> json \<Rightarrow> request" where
  "api_post b path body =
     interceptor b
       \<lparr> req_method = POST, req_baseURL = Some (API_BASE b), req_url = path,
         req_headers = [], req_data = Some body, req_withCredentials = True \<rparr>"

text \<open>
  An \<open>async\<close> function of the client library returns what it throws (\<open>Inl\<close>) or
  returns (\<open>Inr\<close>), with the effects it had.
\<close>

definition getStats ::
  "StatsResponse outcome \<Rightarrow> browser \<Rightarrow> (json option + StatsResponse) \<times> effect list" where
  "getStats answer b =
     (case answer of
        Rejected e \<Rightarrow> (Inl e, [Fetch (api_get b ''/api/v1/stats'')])
      | Resolved d \<Rightarrow> (Inr d, [Fetch (api_get b ''/api/v1/stats'')]))"

definition reviewHistory ::
  "string \<Rightarrow> bool \<Rightarrow> unit outcome \<Rightarrow> browser \<Rightarrow> (json option + unit) \<times> effect list" where
  "reviewHistory history_id correct answer b =
     (let req = api_post b ''/api/v1/history/review''
                  (JObj [(''history_id'', JStr history_id), (''correct'', JBool correct)])
      in case answer of
           Rejected e \<Rightarrow> (Inl e, [Fetch req])
         | Resolved d \<Rightarrow> (Inr d, [Fetch req]))"

record ChatResponse =
  reply :: string

definition chatAI_request :: "string \<Rightarrow> browser \<Rightarrow> request" where
  "chatAI_request message b = api_post b ''/api/v1/chat'' (JObj [(''message'', JStr message)])"

definition chatAI ::
  "string \<Rightarrow> ChatResponse outcome \<Rightarrow> browser \<Rightarrow> (json option + ChatResponse) \<times> effect list" where
  "chatAI message answer b =
     (case answer of
        Rejected e \<Rightarrow> (Inl e, [Fetch (chatAI_request message b)])
      | Resolved d \<Rightarrow> (Inr d, [Fetch (chatAI_request message b)]))"

section \<open>lib/auth.ts\<close>

record tokens =
  access_token :: string
  refresh_token :: string

definition saveTokens :: "tokens \<Rightarrow> browser \<Rightarrow> effect list \<times> browser" where
  "saveTokens d b =
     (if window_defined b
      then ([SetItem ''access_token'' (access_token d),
             SetItem ''refresh_token'' (refresh_token d)],
            b\<lparr>localStorage := (localStorage b)
                 (''access_token'' \<mapsto> access_token d, ''refresh_token'' \<mapsto> refresh_token d)\<rparr>)
      else ([], b))"

text \<open>A member whose value is \<open>undefined\<close> is left out of the serialised body.\<close>

definition signup_body :: "string \<Rightarrow> string \<Rightarrow> string \<Rightarrow> string option \<Rightarrow> json" where
  "signup_body name email password language_pref =
     JObj ([(''name'', JStr name), (''email'', JStr email), (''password'', JStr password)]
           @ (case language_pref of None \<Rightarrow> [] | Some l \<Rightarrow> [(''language_pref'', JStr l)]))"

definition signup ::
  "string \<Rightarrow> string \<Rightarrow> string \<Rightarrow> string option \<Rightarrow> tokens outcome \<Rightarrow> browser
     \<Rightarrow> (json option + tokens) \<times> effect list \<times> browser" where
  "signup name email password language_pref answer b =
     (let req = api_post b ''/api/v1/auth/signup'' (signup_body name email password language_pref)
      in case answer of
           Rejected e \<Rightarrow> (Inl e, [Fetch req], b)
         | Resolved d \<Rightarrow> (case saveTokens d b of (es, b') \<Rightarrow> (Inr d, Fetch req # es, b')))"

definition login ::
  "string \<Rightarrow> string \<Rightarrow> tokens outcome \<Rightarrow> browser
     \<Rightarrow> (json option + tokens) \<times> effect list \<times> browser" where
  "login email password answer b =
     (let req = api_post b ''/api/v1/auth/login''
                  (JObj [(''email'', JStr email), (''password'', JStr password)])
      in case answer of
           Rejected e \<Rightarrow> (Inl e, [Fetch req], b)
         | Resolved d \<Rightarrow> (case saveTokens d b of (es, b') \<Rightarrow> (Inr d, Fetch req # es, b')))"

definition logout :: "browser \<Rightarrow> effect list \<times> browser" where
  "logout b =
     (if window_defined b
      then ([RemoveItem ''access_token'', RemoveItem ''refresh_token''],
            b\<lparr>localStorage := (localStorage b)(''access_token'' := None, ''refresh_token'' := None)\<rparr>)
      else ([], b))"

section \<open>pages/signup.tsx and pages/login.tsx\<close>

record signup_page =
  sp_name :: string
  sp_email :: string
  sp_pw :: string
  sp_err :: rendered
  sp_authed :: bool

text \<open>
  What the error box shows for \<open>detail || fallback\<close>, when the detail is not an object:
  React shows a string and a number as text and a boolean as nothing.
\<close>

definition detail_or :: "json option \<Rightarrow> string \<Rightarrow> rendered" where
  "detail_or detail fallback =
     (case detail of
        Some (JStr s) \<Rightarrow> if s = [] then [Lit fallback] else [Lit s]
      | Some (JNum n) \<Rightarrow> if n = 0 then [Lit fallback] else [Num n]
      | Some (JBool b) \<Rightarrow> if b then [] else [Lit fallback]
      | _ \<Rightarrow> [Lit fallback])"

text \<open>
  The message the catch branch of \<open>submit\<close> computes from the detail of the error;
  \<open>None\<close> when computing it throws (\<open>detail.errors\<close> is truthy but not an array).
\<close>

definition signup_error :: "json option \<Rightarrow> rendered option" where
  "signup_error detail =
     (case detail of
        Some (JObj fs) \<Rightarrow>
          if truthy_opt (map_of fs ''message'') \<and> truthy_opt (map_of fs ''errors'')
          then (case map_of fs ''errors'' of
                  Some (JArr xs) \<Rightarrow> Some [Interp (map_of fs ''message''), Lit '': '', Join '', '' xs]
                | _ \<Rightarrow> None)
          else Some [Stringify (JObj fs)]
      | Some (JArr xs) \<Rightarrow> Some [Stringify (JArr xs)]
      | _ \<Rightarrow> Some (detail_or detail ''Signup failed''))"

definition submit ::
  "tokens outcome \<Rightarrow> signup_page \<Rightarrow> browser \<Rightarrow> signup_page \<times> effect list \<times> browser" where
  "submit answer p b =
     (case signup (sp_name p) (sp_email p) (sp_pw p) (Some ''en'') answer b of
        (Inr d, es, b') \<Rightarrow> (p, es @ [RouterPush ''/''], b')
      | (Inl detail, es, b') \<Rightarrow>
          (case signup_error detail of
             None \<Rightarrow> (p, es, b')
           | Some m \<Rightarrow> (p\<lparr>sp_err := m\<rparr>, es, b')))"

record login_page =
  lp_email :: string
  lp_pw :: string
  lp_err :: rendered
  lp_authed :: bool

definition login_error :: "json option \<Rightarrow> rendered" where
  "login_error detail =
     (case detail of
        Some (JObj fs) \<Rightarrow> [Stringify (JObj fs)]
      | Some (JArr xs) \<Rightarrow> [Stringify (JArr xs)]
      | _ \<Rightarrow> detail_or detail ''Login failed'')"

definition login_submit ::
  "tokens outcome \<Rightarrow> login_page \<Rightarrow> browser \<Rightarrow> login_page \<times> effect list \<times> browser" where
  "login_submit answer p b =
     (case login (lp_email p) (lp_pw p) answer b of
        (Inr d, es, b') \<Rightarrow> (p, es @ [RouterPush ''/''], b')
      | (Inl detail, es, b') \<Rightarrow> (p\<lparr>lp_err := login_error detail\<rparr>, es, b'))"

section \<open>components/AuthMeter.tsx\<close>

text \<open>
  The rendered meter: the label span (its colour and text) and the width of the
  \<open>meter-fill\<close> bar, a percentage.
\<close>

record auth_meter =
  label_color :: string
  label_text :: rendered
  fill_width :: number

definition clamped :: "number \<Rightarrow> number" where
  "clamped score = max 0 (min 100 score)"

definition AuthMeter :: "number \<Rightarrow> rendered \<Rightarrow> auth_meter" where
  "AuthMeter score label =
     \<lparr> label_color = (if score \<ge> 50 then ''var(--good)'' else ''var(--bad)''),
       label_text = label,
       fill_width = clamped score \<rparr>"

section \<open>pages/index.tsx: the scores shown on the home page\<close>

type_synonym Prob = "string \<rightharpoonup> number"

text \<open>\<open>v ?? d\<close>: the default replaces a value that is \<open>undefined\<close> or \<open>null\<close>.\<close>

definition nullish :: "'a option \<Rightarrow> 'a \<Rightarrow> 'a" where
  "nullish v d = (case v of None \<Rightarrow> d | Some x \<Rightarrow> x)"

definition realScore :: "Prob \<Rightarrow> number" where
  "realScore prob = js_mul (nullish (prob ''Real News'') 0) 100"

definition fakeScore :: "Prob \<Rightarrow> number" where
  "fakeScore prob = js_mul (nullish (prob ''Fake News'') 0) 100"

definition isReal :: "Prob \<Rightarrow> bool" where
  "isReal prob \<longleftrightarrow> realScore prob \<ge> fakeScore prob"

definition meterScore :: "Prob \<Rightarrow> number" where
  "meterScore prob = (if isReal prob then realScore prob else fakeScore prob)"

definition meterLabel :: "Prob \<Rightarrow> string" where
  "meterLabel prob = (if isReal prob then ''Real'' else ''Fake'')"

section \<open>components/SearchBar.tsx\<close>



section \<open>pages/index.tsx: the home page\<close>

record Source =
  src_title :: string
  src_url :: string
  src_source :: "string option"

record AnalyzeResponse =
  ar_verdict :: string
  ar_html :: string
  ar_scores :: "Prob option"
  ar_sources :: "Source list option"
  ar_language :: "string option"

record home_page =
  hp_authed :: bool
  hp_stats :: "StatsResponse option"
  hp_input :: string
  hp_html :: string
  hp_verdict :: string
  hp_prob :: Prob
  hp_sources :: "Source list"
  hp_loading :: bool
  hp_language :: "string option"

definition Home_init :: home_page where
  "Home_init =
     \<lparr> hp_authed = False, hp_stats = None, hp_input = [], hp_html = [], hp_verdict = [],
       hp_prob = Map.empty, hp_sources = [], hp_loading = False, hp_language = None \<rparr>"

text \<open>
  \<open>handleAnalyze\<close> up to its \<open>await\<close>: the loading flag is set and the request is
  issued.
\<close>

definition handleAnalyze_begin :: "home_page \<Rightarrow> browser \<Rightarrow> home_page \<times> request" where
  "handleAnalyze_begin p b =
     (p\<lparr>hp_loading := True\<rparr>,
      api_post b ''/api/v1/analyze'' (JObj [(''text'', JStr (hp_input p))]))"

text \<open>
  \<open>handleAnalyze\<close> from the answer on. After a success the statistics are fetched and
  stored when they arrive, a failure of that request is swallowed. \<open>x || d\<close> keeps a
  truthy \<open>x\<close>: an object or an array always, a string when it is not empty.
\<close>

definition handleAnalyze_settle ::
  "AnalyzeResponse outcome \<Rightarrow> StatsResponse outcome \<Rightarrow> home_page \<Rightarrow> browser
     \<Rightarrow> home_page \<times> effect list" where
  "handleAnalyze_settle answer stats_answer p b =
     (case answer of
        Resolved res \<Rightarrow>
          (let p1 = p\<lparr> hp_verdict := ar_verdict res,
                       hp_html := ar_html res,
                       hp_prob := (case ar_scores res of None \<Rightarrow> Map.empty | Some m \<Rightarrow> m),
                       hp_sources := (case ar_sources res of None \<Rightarrow> [] | Some xs \<Rightarrow> xs),
                       hp_language := (case ar_language res of
                                         None \<Rightarrow> None
                                       | Some l \<Rightarrow> if l = [] then None else Some l) \<rparr>
           in case getStats stats_answer b of
                (Inr st, es) \<Rightarrow> (p1\<lparr>hp_stats := Some st, hp_loading := False\<rparr>, es)
              | (Inl e, es) \<Rightarrow> (p1\<lparr>hp_loading := False\<rparr>, es))
      | Rejected e \<Rightarrow>
          (p\<lparr> hp_verdict := ''Error'',
              hp_html := ''<div style='' @ [CHR 0x27] @ ''color:red'' @ [CHR 0x27] @ ''>Backend error</div>'',
              hp_prob := Map.empty,
              hp_sources := [],
              hp_loading := False \<rparr>,
           [ConsoleError]))"

definition handleAnalyze ::
  "AnalyzeResponse outcome \<Rightarrow> StatsResponse outcome \<Rightarrow> home_page \<Rightarrow> browser
     \<Rightarrow> home_page \<times> effect list" where
  "handleAnalyze answer stats_answer p b =
     (case handleAnalyze_begin p b of
        (p1, req) \<Rightarrow>
          (case handleAnalyze_settle answer stats_answer p1 b of
             (p2, es) \<Rightarrow> (p2, Fetch req # es)))"

text \<open>
  The meter the page shows once a verdict is set; \<open>meterScore || 0\<close> is \<open>meterScore\<close>,
  since the only falsy number of the model is 0.
\<close>

definition Home_meter :: "home_page \<Rightarrow> auth_meter option" where
  "Home_meter p =
     (if hp_verdict p = [] then None
      else Some (AuthMeter (meterScore (hp_prob p))
                   [Lit (meterLabel (hp_prob p)), Lit ('' '' @ bullet @ '' ''),
                    Fixed1 (meterScore (hp_prob p)), Lit ''%'']))"


section \<open>pages/chat.tsx\<close>

datatype sender = User | Bot

text \<open>The id of a message is the decimal string of a number; the number stands for it.\<close>

record Msg =
  msg_from :: sender
  msg_text :: string
  msg_id :: nat

record chat_page =
  cp_log :: "Msg list"
  cp_input :: string
  cp_loading :: bool
  cp_copied :: "nat option"
  cp_authed :: bool

definition ChatPage_init :: chat_page where
  "ChatPage_init =
     \<lparr> cp_log = [], cp_input = [], cp_loading = False, cp_copied = None, cp_authed = False \<rparr>"

definition apology :: string where
  "apology = cross_mark
     @ '' Sorry, something went wrong. Please check your connection and try again.''"

text \<open>
  \<open>send\<close> up to its \<open>await\<close>, at time \<open>now\<close>: nothing happens when the trimmed input
  is empty or a request is loading; otherwise the user's message is logged, the input
  cleared, the loading flag set and the request issued.
\<close>

definition send_begin :: "nat \<Rightarrow> chat_page \<Rightarrow> browser \<Rightarrow> chat_page \<times> request option" where
  "send_begin now p b =
     (if trim (cp_input p) = [] \<or> cp_loading p then (p, None)
      else (p\<lparr> cp_log := cp_log p @ [\<lparr>msg_from = User, msg_text = cp_input p, msg_id = now\<rparr>],
                cp_input := [],
                cp_loading := True \<rparr>,
            Some (chatAI_request (cp_input p) b)))"

text \<open>\<open>send\<close> from the answer on, at time \<open>now\<close>.\<close>

definition send_settle :: "nat \<Rightarrow> ChatResponse outcome \<Rightarrow> chat_page \<Rightarrow> chat_page" where
  "send_settle now answer p =
     (case answer of
        Resolved res \<Rightarrow>
          p\<lparr> cp_log := cp_log p @ [\<lparr>msg_from = Bot, msg_text = reply res, msg_id = now + 1\<rparr>],
             cp_loading := False \<rparr>
      | Rejected e \<Rightarrow>
          p\<lparr> cp_log := cp_log p @ [\<lparr>msg_from = Bot, msg_text = apology, msg_id = now + 1\<rparr>],
             cp_loading := False \<rparr>)"

definition send ::
  "nat \<Rightarrow> nat \<Rightarrow> ChatResponse outcome \<Rightarrow> chat_page \<Rightarrow> browser \<Rightarrow> chat_page \<times> effect list" where
  "send now now' answer p b =
     (case send_begin now p b of
        (p1, None) \<Rightarrow> (p1, [])
      | (p1, Some req) \<Rightarrow> (send_settle now' answer p1, [Fetch req]))"

section \<open>pages/dashboard.tsx: the Accuracy statistic\<close>

text \<open>
  JavaScript's \<open>/\<close> does not raise on a zero divisor. To say that no such division is
  evaluated, the division of the model is instrumented: it returns \<open>None\<close> when it is
  asked to divide by zero, and the expression that uses it passes the \<open>None\<close> on.
\<close>

definition js_div :: "number \<Rightarrow> number \<Rightarrow> number option" where
  "js_div a b = (if b = 0 then None else Some (a / b))"

definition accuracy :: "StatsResponse \<Rightarrow> rendered option" where
  "accuracy stats =
     (if total_reviews stats > 0
      then (case js_div (correct_votes stats) (total_reviews stats) of
              None \<Rightarrow> None
            | Some q \<Rightarrow> Some [Fixed1 (q * 100), Lit ''%''])
      else Some [Lit em_dash])"

section \<open>components/HistoryItem.tsx\<close>

record Item =
  item_id :: string
  item_query :: string
  item_verdict :: string
  item_confidence :: "number option"
  item_reviewed :: "bool option"
  item_correct :: "bool option"

text \<open>
  The second line of an entry shows the review that was given, or the two buttons that
  call \<open>onReview\<close> with the id of the item.
\<close>

datatype review_view =
    Reviewed string string
  | ReviewButtons string

record history_item =
  history_id :: rendered
  history_query :: rendered
  history_meta :: rendered
  history_review :: review_view

definition js_true :: "bool option \<Rightarrow> bool" where
  "js_true v = (case v of None \<Rightarrow> False | Some x \<Rightarrow> x)"

definition HistoryItem :: "Item \<Rightarrow> history_item" where
  "HistoryItem item =
     \<lparr> history_id = [Lit (item_id item)],
       history_query = [Lit (item_query item)],
       history_meta =
         [Lit ''Verdict: '', Lit (item_verdict item), Lit ('' '' @ bullet @ '' '')]
         @ (case item_confidence item of None \<Rightarrow> [] | Some c \<Rightarrow> [Fixed1 c])
         @ [Lit ''%''],
       history_review =
         (if js_true (item_reviewed item)
          then Reviewed (if js_true (item_correct item) then ''var(--good)'' else ''var(--bad)'')
                        (if js_true (item_correct item) then ''Correct'' else ''Incorrect'')
          else ReviewButtons (item_id item)) \<rparr>"

section \<open>pages/dashboard.tsx\<close>

record dashboard_page =
  dp_items :: "Item list"
  dp_stats :: "StatsResponse option"
  dp_authed :: bool

definition Dashboard_init :: dashboard_page where
  "Dashboard_init = \<lparr> dp_items = [], dp_stats = None, dp_authed = False \<rparr>"

text \<open>
  \<open>load\<close>: the history is requested; when it arrives the items are stored
  (\<open>res.data || []\<close>) and the statistics are requested, a failure of which is swallowed.
  When the history request fails, \<open>load\<close> throws before it asks for the statistics.
\<close>

definition load ::
  "Item list option outcome \<Rightarrow> StatsResponse outcome \<Rightarrow> dashboard_page \<Rightarrow> browser
     \<Rightarrow> (json option + unit) \<times> dashboard_page \<times> effect list" where
  "load answer stats_answer p b =
     (case answer of
        Rejected e \<Rightarrow> (Inl e, p, [Fetch (api_get b ''/api/v1/history'')])
      | Resolved d \<Rightarrow>
          (let p1 = p\<lparr>dp_items := (case d of None \<Rightarrow> [] | Some xs \<Rightarrow> xs)\<rparr>
           in case getStats stats_answer b of
                (Inr st, es) \<Rightarrow>
                  (Inr (), p1\<lparr>dp_stats := Some st\<rparr>, Fetch (api_get b ''/api/v1/history'') # es)
              | (Inl e, es) \<Rightarrow>
                  (Inr (), p1, Fetch (api_get b ''/api/v1/history'') # es)))"

text \<open>The effect that runs when the page is mounted: \<open>load().catch(console.error)\<close>.\<close>

definition Dashboard_mount ::
  "Item list option outcome \<Rightarrow> StatsResponse outcome \<Rightarrow> dashboard_page \<Rightarrow> browser
     \<Rightarrow> dashboard_page \<times> effect list" where
  "Dashboard_mount answer stats_answer p b =
     (case load answer stats_answer p b of
        (Inr u, p', es) \<Rightarrow> (p', es)
      | (Inl e, p', es) \<Rightarrow> (p', es @ [ConsoleError]))"

text \<open>
  \<open>handleReview\<close>: the review is posted, then the page is loaded again; a failure of
  the post is logged, and \<open>load\<close> is not awaited, so its failure is not.
\<close>

definition handleReview ::
  "string \<Rightarrow> bool \<Rightarrow> unit outcome \<Rightarrow> Item list option outcome \<Rightarrow> StatsResponse outcome
     \<Rightarrow> dashboard_page \<Rightarrow> browser \<Rightarrow> dashboard_page \<times> effect list" where
  "handleReview ident correct review_answer answer stats_answer p b =
     (case reviewHistory ident correct review_answer b of
        (Inr u, es) \<Rightarrow>
          (case load answer stats_answer p b of (r, p', es') \<Rightarrow> (p', es @ es'))
      | (Inl e, es) \<Rightarrow> (p, es @ [ConsoleError]))"

text \<open>
  What the page shows: the Accuracy statistic when the statistics are there (\<open>None\<close>
  inside it would be a division by zero), one entry for each item, and a note when there
  is no item.
\<close>

record dashboard =
  stat_accuracy :: "rendered option option"
  history_list :: "history_item list"
  no_history :: bool

definition Dashboard :: "dashboard_page \<Rightarrow> dashboard" where
  "Dashboard p =
     \<lparr> stat_accuracy = (case dp_stats p of None \<Rightarrow> None | Some st \<Rightarrow> Some (accuracy st)),
       history_list = map HistoryItem (dp_items p),
       no_history = (length (dp_items p) = 0) \<rparr>"

section \<open>pages/bulk-analyze.tsx\<close>

record BatchResult =
  br_verdict :: string
  br_confidence :: number

record bulk_page =
  bp_texts :: "string list"
  bp_results :: "BatchResult list"

definition BulkAnalyze_init :: bulk_page where
  "BulkAnalyze_init = \<lparr> bp_texts = [[]], bp_results = [] \<rparr>"

definition addText :: "bulk_page \<Rightarrow> bulk_page" where
  "addText p = p\<lparr>bp_texts := bp_texts p @ [[]]\<rparr>"

text \<open>
  \<open>analyze\<close> uses \<open>fetch\<close> with a relative URL; nothing catches a rejection, which
  leaves the page as it was.
\<close>

definition analyze ::
  "BatchResult list option outcome \<Rightarrow> bulk_page \<Rightarrow> bulk_page \<times> effect list" where
  "analyze answer p =
     (let req = \<lparr> req_method = POST, req_baseURL = None, req_url = ''/api/v1/analyze/batch'',
                   req_headers = [(''Content-Type'', ''application/json'')],
                   req_data = Some (JObj [(''texts'', JArr (map JStr (bp_texts p)))]),
                   req_withCredentials = False \<rparr>
      in case answer of
           Rejected e \<Rightarrow> (p, [Fetch req])
         | Resolved d \<Rightarrow>
             (p\<lparr>bp_results := (case d of None \<Rightarrow> [] | Some rs \<Rightarrow> rs)\<rparr>, [Fetch req]))"

section \<open>browser-extension: popup.js and background.js\<close>

text \<open>
  Both scripts post the text to the same absolute URL. A text that is \<open>undefined\<close> is
  left out of the serialised body.
\<close>

definition extension_request :: "string option \<Rightarrow> request" where
  "extension_request t =
     \<lparr> req_method = POST, req_baseURL = None,
       req_url = ''http://localhost:8000/api/v1/analyze'',
       req_headers = [(''Content-Type'', ''application/json'')],
       req_data = Some (JObj (case t of None \<Rightarrow> [] | Some s \<Rightarrow> [(''text'', JStr s)])),
       req_withCredentials = False \<rparr>"

text \<open>
  The click handler of the popup, from the callback of \<open>executeScript\<close> on: \<open>results\<close>
  holds the inner text of each frame, and reading \<open>results[0]\<close> of an empty array
  throws before anything is sent. Reading a member of a response that is \<open>null\<close> throws
  as well, after the request.
\<close>

definition popup_html :: "json \<Rightarrow> rendered" where
  "popup_html d =
     [Lit ([CHR 0x0A] @ ''      <h3>''), Interp (js_prop d ''verdict''),
      Lit (''</h3>'' @ [CHR 0x0A] @ ''      <p>Confidence: ''), Interp (js_prop d ''confidence''),
      Lit (''%</p>'' @ [CHR 0x0A] @ ''    '')]"

definition popup_click :: "string list \<Rightarrow> json outcome \<Rightarrow> effect list" where
  "popup_click results answer =
     (case results of
        [] \<Rightarrow> []
      | t # rest \<Rightarrow>
          Fetch (extension_request (Some t))
          # (case answer of
               Rejected e \<Rightarrow> []
             | Resolved JNull \<Rightarrow> []
             | Resolved d \<Rightarrow> [SetInnerHTML ''result'' (popup_html d)]))"

record OnClickData =
  menuItemId :: string
  selectionText :: "string option"

definition notification_message :: "json \<Rightarrow> rendered" where
  "notification_message d =
     [Interp (js_prop d ''verdict''), Lit '' ('', Interp (js_prop d ''confidence''), Lit ''%)'']"

definition contextMenus_onClicked :: "OnClickData \<Rightarrow> json outcome \<Rightarrow> effect list" where
  "contextMenus_onClicked info answer =
     (if menuItemId info = ''analyzeText''
      then Fetch (extension_request (selectionText info))
           # (case answer of
                Rejected e \<Rightarrow> []
              | Resolved JNull \<Rightarrow> []
              | Resolved d \<Rightarrow> [Notification ''VeriGlow Analysis'' (notification_message d)])
      else [])"

section \<open>The operations of the clients and the documented endpoints\<close>

text \<open>
  Every place of the client code that issues a request is reached from one of these
  operations; each carries its inputs and the answers of the server.
\<close>

datatype client_call =
    SignupSubmit signup_page "tokens outcome"
  | LoginSubmit login_page "tokens outcome"
  | ChatSendMessage nat nat chat_page "ChatResponse outcome"
  | HomeAnalyze home_page "AnalyzeResponse outcome" "StatsResponse outcome"
  | DashboardMount dashboard_page "Item list option outcome" "StatsResponse outcome"
  | DashboardReview dashboard_page string bool "unit outcome" "Item list option outcome"
      "StatsResponse outcome"
  | BulkAnalyzeAll bulk_page "BatchResult list option outcome"
  | PopupAnalyze "string list" "json outcome"
  | ContextMenuAnalyze OnClickData "json outcome"

fun run :: "browser \<Rightarrow> client_call \<Rightarrow> effect list" where
  "run b (SignupSubmit p a) = fst (snd (submit a p b))"
| "run b (LoginSubmit p a) = fst (snd (login_submit a p b))"
| "run b (ChatSendMessage now now' p a) = snd (send now now' a p b)"
| "run b (HomeAnalyze p a sa) = snd (handleAnalyze a sa p b)"
| "run b (DashboardMount p a sa) = snd (Dashboard_mount a sa p b)"
| "run b (DashboardReview p ident correct ra a sa) = snd (handleReview ident correct ra a sa p b)"
| "run b (BulkAnalyzeAll p a) = snd (analyze a p)"
| "run b (PopupAnalyze results a) = popup_click results a"
| "run b (ContextMenuAnalyze info a) = contextMenus_onClicked info a"

text \<open>The table of the README's section "API overview": endpoint and method.\<close>

definition api_overview :: "(string \<times> http_method) list" where
  "api_overview =
     [(''/api/v1/auth/signup'', POST),
      (''/api/v1/auth/login'', POST),
      (''/api/v1/analyze'', POST),
      (''/api/v1/chat'', POST),
      (''/api/v1/history'', GET),
      (''/api/v1/stats'', GET),
      (''/health'', GET)]"

definition documented :: "request \<Rightarrow> bool" where
  "documented r \<longleftrightarrow> request_path r \<in> fst ` set api_overview"

definition a_browser :: browser where
  "a_browser = \<lparr> NEXT_PUBLIC_API_BASE = None, window_defined = True, localStorage = Map.empty \<rparr>"

text \<open>The endpoint a request goes to: its path and its method.\<close>

definition endpoint :: "request \<Rightarrow> string \<times> http_method" where
  "endpoint r = (request_path r, req_method r)"

text \<open>
  The two endpoints the clients call beyond the overview, and the overview with them.
\<close>

definition allowed :: "(string \<times> http_method) set" where
  "allowed = set api_overview
             \<union> {(''/api/v1/history/review'', POST), (''/api/v1/analyze/batch'', POST)}"

text \<open>Inputs for the closed theorems.\<close>

definition a_signup_page :: signup_page where
  "a_signup_page =
     \<lparr> sp_name = ''Ann'', sp_email = ''ann@example.org'', sp_pw = ''secret'', sp_err = [],
       sp_authed = False \<rparr>"

definition some_tokens :: tokens where
  "some_tokens = \<lparr> access_token = ''AT'', refresh_token = ''RT'' \<rparr>"

text \<open>
  Two responses: one with the scores 0.75 and 0.25, one whose scores are the doubles that
  0.35 and 0.35000000000000003 denote, which are next to each other.
\<close>

definition clear_scores :: AnalyzeResponse where
  "clear_scores =
     \<lparr> ar_verdict = ''Real'', ar_html = [],
       ar_scores = Some [''Real News'' \<mapsto> 3 / 4, ''Fake News'' \<mapsto> 1 / 4],
       ar_sources = None, ar_language = None \<rparr>"

definition close_scores :: AnalyzeResponse where
  "close_scores =
     \<lparr> ar_verdict = ''Fake'', ar_html = [],
       ar_scores = Some [''Real News'' \<mapsto> 3152519739159347 / 9007199254740992,
                         ''Fake News'' \<mapsto> 6305039478318695 / 18014398509481984],
       ar_sources = None, ar_language = None \<rparr>"

definition an_item :: Item where
  "an_item =
     \<lparr> item_id = ''h1'', item_query = ''Is it true?'', item_verdict = ''Fake'',
       item_confidence = Some (875 / 10), item_reviewed = None, item_correct = None \<rparr>"

section \<open>Properties\<close>

subsection \<open>Rounding to a double is monotone\<close>

lemma rhe_floor: "\<lfloor>q\<rfloor> \<le> round_half_even q" "round_half_even q \<le> \<lfloor>q\<rfloor> + 1"
  by (simp_all add: round_half_even_def Let_def)

lemma rhe_of_int [simp]: "round_half_even (of_int n) = n"
  by (simp add: round_half_even_def Let_def)

lemma rhe_mono: "q \<le> q' \<Longrightarrow> round_half_even q \<le> round_half_even q'"
proof -
  assume le: "q \<le> q'"
  then have fl: "\<lfloor>q\<rfloor> \<le> \<lfloor>q'\<rfloor>" by (rule floor_mono)
  show ?thesis
  proof (cases "\<lfloor>q\<rfloor> = \<lfloor>q'\<rfloor>")
    case True
    with le show ?thesis by (auto simp: round_half_even_def Let_def)
  next
    case False
    with fl have "\<lfloor>q\<rfloor> + 1 \<le> \<lfloor>q'\<rfloor>" by simp
    with rhe_floor(2) [of q] rhe_floor(1) [of q'] show ?thesis by linarith
  qed
qed

lemma rhe_le_int: "q \<le> of_int n \<Longrightarrow> round_half_even q \<le> n"
  using rhe_mono [of q "of_int n"] by simp

lemma rhe_ge_int: "of_int n \<le> q \<Longrightarrow> n \<le> round_half_even q"
  using rhe_mono [of "of_int n" q] by simp

lemma binade_bounds:
  assumes "0 < x"
  shows "2 powi binade x \<le> x" and "x < 2 powi (binade x + 1)"
proof -
  obtain p q where pq: "quotient_of x = (p, q)" by (cases "quotient_of x")
  then have x: "x = of_int p / of_int q" and q: "0 < q"
    by (simp_all add: quotient_of_div quotient_of_denom_pos)
  with assms have p: "0 < p" by (simp add: zero_less_divide_iff)
  define a where "a = bitlen p"
  define c where "c = bitlen q"
  have a1: "1 \<le> a" and c1: "1 \<le> c"
    using p q bitlen_eq_zero_iff [of p] bitlen_eq_zero_iff [of q] bitlen_nonneg [of p] bitlen_nonneg [of q]
    by (auto simp: a_def c_def)
  have pb: "(2::rat) powi (a - 1) \<le> of_int p" "of_int p < (2::rat) powi a"
  proof -
    from bitlen_bounds [OF p] have "2 ^ nat (a - 1) \<le> p" "p < 2 ^ nat a" by (simp_all add: a_def)
    then have "(of_int (2 ^ nat (a - 1)) :: rat) \<le> of_int p" "(of_int p :: rat) < of_int (2 ^ nat a)"
      by (simp_all only: of_int_le_iff of_int_less_iff)
    with a1 show "(2::rat) powi (a - 1) \<le> of_int p" "of_int p < (2::rat) powi a"
      by (simp_all add: power_int_def)
  qed
  have qb: "(2::rat) powi (c - 1) \<le> of_int q" "of_int q < (2::rat) powi c"
  proof -
    from bitlen_bounds [OF q] have "2 ^ nat (c - 1) \<le> q" "q < 2 ^ nat c" by (simp_all add: c_def)
    then have "(of_int (2 ^ nat (c - 1)) :: rat) \<le> of_int q" "(of_int q :: rat) < of_int (2 ^ nat c)"
      by (simp_all only: of_int_le_iff of_int_less_iff)
    with c1 show "(2::rat) powi (c - 1) \<le> of_int q" "of_int q < (2::rat) powi c"
      by (simp_all add: power_int_def)
  qed
  have qpos: "(0::rat) < of_int q" using q by simp
  have lo: "(2::rat) powi (a - c - 1) < x"
  proof -
    have "(2::rat) powi (a - c - 1) * of_int q < 2 powi (a - c - 1) * 2 powi c"
      using qb(2) by (simp add: mult_strict_left_mono)
    also have "\<dots> = 2 powi (a - 1)" by (simp add: power_int_add [symmetric])
    also have "\<dots> \<le> of_int p" by (rule pb(1))
    finally show ?thesis using qpos by (simp add: x pos_less_divide_eq)
  qed
  have hi: "x < (2::rat) powi (a - c + 1)"
  proof -
    have "of_int p < (2::rat) powi a" by (rule pb(2))
    also have "\<dots> = 2 powi (a - c + 1) * 2 powi (c - 1)" by (simp add: power_int_add [symmetric])
    also have "\<dots> \<le> 2 powi (a - c + 1) * of_int q"
      using qb(1) by (simp add: mult_left_mono)
    finally show ?thesis using qpos by (simp add: x pos_divide_less_eq)
  qed
  have b: "binade x = (if 2 powi (a - c) \<le> x then a - c else a - c - 1)"
    by (simp add: binade_def pq a_def c_def Let_def)
  show "2 powi binade x \<le> x" using lo by (simp add: b less_imp_le)
  show "x < 2 powi (binade x + 1)" using hi by (auto simp: b not_le)
qed


lemma binade_mono:
  assumes "0 < x" "x \<le> y"
  shows "binade x \<le> binade y"
proof (rule ccontr)
  assume "\<not> binade x \<le> binade y"
  then have "binade y + 1 \<le> binade x" by simp
  then have "(2::rat) powi (binade y + 1) \<le> 2 powi binade x"
    by (intro power_int_increasing) simp_all
  also have "\<dots> \<le> x" using assms(1) by (rule binade_bounds)
  also have "\<dots> \<le> y" by fact
  also have "\<dots> < 2 powi (binade y + 1)" using assms by (intro binade_bounds) simp
  finally show False by simp
qed

lemma ulp_pos [simp]: "0 < ulp x"
  by (simp add: ulp_def)

lemma ulp_nonneg [simp]: "0 \<le> ulp x"
  using ulp_pos [of x] by (rule less_imp_le)

lemma pow2_split: "(2::rat) powi (e + int k) = 2 ^ k * 2 powi e"
  by (simp add: power_int_add)

lemma pow2_ulp_hi: "(2::rat) powi (max (binade x) (- 1022) + 1) = 2 ^ 53 * ulp x"
  using pow2_split [of "max (binade x) (- 1022) - 52" 53] by (simp add: ulp_def add.commute)

lemma pow2_ulp_lo: "- 1022 \<le> binade x \<Longrightarrow> (2::rat) powi binade x = 2 ^ 52 * ulp x"
  using pow2_split [of "binade x - 52" 52] by (simp add: ulp_def)

lemma round_double_nearest: "round_double x = min (2 ^ 1024) (nearest x)"
  by (simp add: round_double_def)

lemma nearest_le:
  assumes "0 < x"
  shows "nearest x \<le> 2 powi (max (binade x) (- 1022) + 1)"
proof -
  let ?e = "max (binade x) (- 1022)"
  have "x < 2 powi (binade x + 1)" using assms by (rule binade_bounds)
  also have "\<dots> \<le> 2 powi (?e + 1)" by (intro power_int_increasing) simp_all
  finally have "x \<le> 2 powi (?e + 1)" by simp
  also have "(2::rat) powi (?e + 1) = 2 ^ 53 * ulp x" by (rule pow2_ulp_hi)
  finally have "x / ulp x \<le> of_int (2 ^ 53)" by (simp add: pos_divide_le_eq)
  then have "round_half_even (x / ulp x) \<le> 2 ^ 53" by (rule rhe_le_int)
  then have "(of_int (round_half_even (x / ulp x)) :: rat) \<le> of_int (2 ^ 53)"
    by (simp only: of_int_le_iff)
  then have "nearest x \<le> 2 ^ 53 * ulp x" by (simp add: nearest_def)
  also have "\<dots> = 2 powi (?e + 1)" by (rule pow2_ulp_hi [symmetric])
  finally show ?thesis .
qed

lemma nearest_ge:
  assumes "0 < x" "- 1022 \<le> binade x"
  shows "2 powi binade x \<le> nearest x"
proof -
  have e: "max (binade x) (- 1022) = binade x" using assms(2) by simp
  have p: "(2::rat) powi binade x = 2 ^ 52 * ulp x" using assms(2) by (rule pow2_ulp_lo)
  have "2 powi binade x \<le> x" using assms(1) by (rule binade_bounds)
  then have "of_int (2 ^ 52) \<le> x / ulp x" by (simp add: p pos_le_divide_eq)
  then have "2 ^ 52 \<le> round_half_even (x / ulp x)" by (rule rhe_ge_int)
  then have "(of_int (2 ^ 52) :: rat) \<le> of_int (round_half_even (x / ulp x))"
    by (simp only: of_int_le_iff)
  then have "2 ^ 52 * ulp x \<le> nearest x" by (simp add: nearest_def)
  then show ?thesis by (simp add: p)
qed

lemma nearest_mono:
  assumes "0 < x" "x \<le> y"
  shows "nearest x \<le> nearest y"
proof -
  let ?ex = "max (binade x) (- 1022)" and ?ey = "max (binade y) (- 1022)"
  have y: "0 < y" using assms by simp
  have "binade x \<le> binade y" using assms by (rule binade_mono)
  then have le: "?ex \<le> ?ey" by simp
  show ?thesis
  proof (cases "?ex = ?ey")
    case True
    then have u: "ulp x = ulp y" by (simp add: ulp_def)
    have "x / ulp y \<le> y / ulp y" using assms(2) ulp_nonneg by (rule divide_right_mono)
    then have "round_half_even (x / ulp y) \<le> round_half_even (y / ulp y)" by (rule rhe_mono)
    then have "(of_int (round_half_even (x / ulp y)) :: rat) \<le> of_int (round_half_even (y / ulp y))"
      by (simp only: of_int_le_iff)
    then show ?thesis by (simp add: nearest_def u)
  next
    case False
    with le have lt: "?ex + 1 \<le> ?ey" by simp
    then have ny: "- 1022 \<le> binade y" "?ey = binade y" by simp_all
    have "nearest x \<le> 2 powi (?ex + 1)" using assms(1) by (rule nearest_le)
    also have "\<dots> \<le> 2 powi ?ey" using lt by (intro power_int_increasing) simp_all
    also have "\<dots> = 2 powi binade y" by (simp only: ny(2))
    also have "\<dots> \<le> nearest y" using y ny(1) by (rule nearest_ge)
    finally show ?thesis .
  qed
qed

lemma nearest_nonneg: "0 < x \<Longrightarrow> 0 \<le> nearest x"
proof -
  assume "0 < x"
  then have "of_int 0 \<le> x / ulp x" by (simp add: zero_le_divide_iff)
  then have "0 \<le> round_half_even (x / ulp x)" by (rule rhe_ge_int)
  then show ?thesis by (simp add: nearest_def)
qed

lemma round_double_mono: "0 < x \<Longrightarrow> x \<le> y \<Longrightarrow> round_double x \<le> round_double y"
  using nearest_mono [of x y] by (simp add: round_double_nearest min_le_iff_disj)

lemma round_double_nonneg: "0 < x \<Longrightarrow> 0 \<le> round_double x"
  using nearest_nonneg [of x] by (simp add: round_double_nearest)

lemma fl_mono: "x \<le> y \<Longrightarrow> fl x \<le> fl y"
proof -
  assume le: "x \<le> y"
  consider "0 < x" | "x = 0" | "x < 0" "y < 0" | "x < 0" "0 \<le> y" by linarith
  then show ?thesis
  proof cases
    case 1
    with le have "0 < y" by simp
    with 1 le show ?thesis by (simp add: fl_def round_double_mono)
  next
    case 2
    with le show ?thesis by (auto simp: fl_def round_double_nonneg)
  next
    case 3
    then have "0 < - y" "- y \<le> - x" using le by simp_all
    then have "round_double (- y) \<le> round_double (- x)" by (rule round_double_mono)
    with 3 show ?thesis by (simp add: fl_def)
  next
    case 4
    then have "0 \<le> round_double (- x)" by (intro round_double_nonneg) simp
    moreover have "0 \<le> fl y" using 4(2) by (auto simp: fl_def round_double_nonneg)
    ultimately show ?thesis using 4(1) by (simp add: fl_def)
  qed
qed

lemma fl_max: "max (fl x) (fl y) = fl (max x y)"
proof (cases "x \<le> y")
  case True
  then show ?thesis using fl_mono [of x y] by (simp add: max_def)
next
  case False
  then have "y \<le> x" by simp
  then show ?thesis using fl_mono [of y x] False by (simp add: max_def)
qed

subsection \<open>Requests of the library functions\<close>

lemma interceptor_method [simp]: "req_method (interceptor b c) = req_method c"
  by (simp add: interceptor_def split: option.splits)

lemma interceptor_url [simp]: "req_url (interceptor b c) = req_url c"
  by (simp add: interceptor_def split: option.splits)

lemma interceptor_data [simp]: "req_data (interceptor b c) = req_data c"
  by (simp add: interceptor_def split: option.splits)

lemma api_post_simps [simp]:
  "req_method (api_post b path body) = POST"
  "req_url (api_post b path body) = path"
  "req_data (api_post b path body) = Some body"
  by (simp_all add: api_post_def)

lemma api_get_simps [simp]:
  "req_method (api_get b path) = GET"
  "req_url (api_get b path) = path"
  "req_data (api_get b path) = None"
  by (simp_all add: api_get_def)

lemma api_get_neq_post [simp]:
  "api_get b path \<noteq> api_post b path' body" "api_post b path' body \<noteq> api_get b path"
proof -
  have "req_method (api_get b path) \<noteq> req_method (api_post b path' body)" by simp
  then show "api_get b path \<noteq> api_post b path' body" by metis
  then show "api_post b path' body \<noteq> api_get b path" by metis
qed

lemma api_get_eq_iff [simp]: "api_get b path = api_get b path' \<longleftrightarrow> path = path'"
proof
  assume "api_get b path = api_get b path'"
  then have "req_url (api_get b path) = req_url (api_get b path')" by simp
  then show "path = path'" by simp
qed simp

lemma url_path_relative [simp]: "url_path (CHR ''/'' # u) = CHR ''/'' # u"
  by (simp add: url_path_def)

lemma endpoint_api_post [simp]: "endpoint (api_post b path body) = (url_path path, POST)"
  by (simp add: endpoint_def request_path_def)

lemma endpoint_api_get [simp]: "endpoint (api_get b path) = (url_path path, GET)"
  by (simp add: endpoint_def request_path_def)

lemma endpoint_extension [simp]: "endpoint (extension_request t) = (''/api/v1/analyze'', POST)"
  by (simp add: endpoint_def request_path_def extension_request_def url_path_def)

lemma endpoint_batch [simp]:
  "endpoint \<lparr> req_method = POST, req_baseURL = None, req_url = ''/api/v1/analyze/batch'',
       req_headers = hs, req_data = d, req_withCredentials = w \<rparr>
     = (''/api/v1/analyze/batch'', POST)"
  by (simp add: endpoint_def request_path_def)

subsection \<open>The requests each operation issues\<close>

lemma requests_append [simp]: "requests (es @ es') = requests es @ requests es'"
  by (induction es rule: requests.induct) simp_all

lemma requests_submit:
  "requests (fst (snd (submit a p b))) =
     [api_post b ''/api/v1/auth/signup''
        (signup_body (sp_name p) (sp_email p) (sp_pw p) (Some ''en''))]"
  by (auto simp: submit_def signup_def saveTokens_def Let_def
      split: outcome.splits option.splits)

lemma requests_login_submit:
  "requests (fst (snd (login_submit a p b))) =
     [api_post b ''/api/v1/auth/login''
        (JObj [(''email'', JStr (lp_email p)), (''password'', JStr (lp_pw p))])]"
  by (auto simp: login_submit_def login_def saveTokens_def Let_def
      split: outcome.splits option.splits)

lemma requests_send:
  "requests (snd (send now now' a p b)) =
     (if trim (cp_input p) = [] \<or> cp_loading p then [] else [chatAI_request (cp_input p) b])"
  by (simp add: send_def send_begin_def)

lemma requests_handleAnalyze:
  "requests (snd (handleAnalyze a sa p b)) =
     api_post b ''/api/v1/analyze'' (JObj [(''text'', JStr (hp_input p))])
     # (case a of Resolved res \<Rightarrow> [api_get b ''/api/v1/stats''] | Rejected e \<Rightarrow> [])"
  by (auto simp: handleAnalyze_def handleAnalyze_begin_def handleAnalyze_settle_def
        getStats_def Let_def
      split: outcome.splits)

lemma requests_load:
  "requests (snd (snd (load a sa p b))) =
     api_get b ''/api/v1/history''
     # (case a of Resolved d \<Rightarrow> [api_get b ''/api/v1/stats''] | Rejected e \<Rightarrow> [])"
  by (auto simp: load_def getStats_def Let_def split: outcome.splits)

lemma requests_Dashboard_mount:
  "requests (snd (Dashboard_mount a sa p b)) = requests (snd (snd (load a sa p b)))"
  by (auto simp: Dashboard_mount_def split: prod.splits sum.splits)

lemma requests_handleReview:
  "requests (snd (handleReview ident correct ra a sa p b)) =
     api_post b ''/api/v1/history/review''
       (JObj [(''history_id'', JStr ident), (''correct'', JBool correct)])
     # (case ra of Resolved u \<Rightarrow> requests (snd (snd (load a sa p b))) | Rejected e \<Rightarrow> [])"
  by (auto simp: handleReview_def reviewHistory_def Let_def split: outcome.splits prod.splits)

lemma requests_analyze:
  "requests (snd (analyze a p)) =
     [\<lparr> req_method = POST, req_baseURL = None, req_url = ''/api/v1/analyze/batch'',
        req_headers = [(''Content-Type'', ''application/json'')],
        req_data = Some (JObj [(''texts'', JArr (map JStr (bp_texts p)))]),
        req_withCredentials = False \<rparr>]"
  by (auto simp: analyze_def Let_def split: outcome.splits)

lemma requests_popup_click:
  "requests (popup_click results a) =
     (case results of [] \<Rightarrow> [] | t # rest \<Rightarrow> [extension_request (Some t)])"
  by (auto simp: popup_click_def split: list.splits outcome.splits json.splits)

lemma requests_contextMenus:
  "requests (contextMenus_onClicked info a) =
     (if menuItemId info = ''analyzeText'' then [extension_request (selectionText info)] else [])"
  by (auto simp: contextMenus_onClicked_def split: outcome.splits json.splits)

subsection \<open>C1: the endpoints the clients call\<close>

text \<open>
  C1 as stated says that the path of every request a client issues is in the README's
  API overview. It fails: the bulk analysis page posts to \<open>/api/v1/analyze/batch\<close> and
  the review buttons of the dashboard post to \<open>/api/v1/history/review\<close>, and the
  overview lists neither path.
\<close>

theorem undocumented_endpoint_counterexample:
  "\<not> list_all documented
       (requests (run a_browser (BulkAnalyzeAll BulkAnalyze_init (Resolved None))))
   \<and> \<not> list_all documented
         (requests (run a_browser (DashboardReview Dashboard_init ''h1'' True (Rejected None)
                      (Rejected None) (Rejected None))))"
  by (simp add: analyze_def BulkAnalyze_init_def handleReview_def reviewHistory_def
        documented_def request_path_def url_path_def api_overview_def Let_def)

lemma allowed_simps [simp]:
  "(''/api/v1/auth/signup'', POST) \<in> allowed"
  "(''/api/v1/auth/login'', POST) \<in> allowed"
  "(''/api/v1/analyze'', POST) \<in> allowed"
  "(''/api/v1/chat'', POST) \<in> allowed"
  "(''/api/v1/history'', GET) \<in> allowed"
  "(''/api/v1/stats'', GET) \<in> allowed"
  "(''/api/v1/history/review'', POST) \<in> allowed"
  "(''/api/v1/analyze/batch'', POST) \<in> allowed"
  by (simp_all add: allowed_def api_overview_def)

lemma endpoints_allowed: "set (map endpoint (requests (run b c))) \<subseteq> allowed"
proof (cases c)
  case (SignupSubmit p a)
  then show ?thesis by (simp add: requests_submit)
next
  case (LoginSubmit p a)
  then show ?thesis by (simp add: requests_login_submit)
next
  case (ChatSendMessage now now' p a)
  then show ?thesis by (simp add: requests_send chatAI_request_def)
next
  case (HomeAnalyze p a sa)
  then show ?thesis by (cases a) (simp_all add: requests_handleAnalyze)
next
  case (DashboardMount p a sa)
  then show ?thesis by (cases a) (simp_all add: requests_Dashboard_mount requests_load)
next
  case (DashboardReview p ident correct ra a sa)
  then show ?thesis by (cases ra; cases a) (simp_all add: requests_handleReview requests_load)
next
  case (BulkAnalyzeAll p a)
  then show ?thesis by (simp add: requests_analyze)
next
  case (PopupAnalyze results a)
  then show ?thesis by (cases results) (simp_all add: requests_popup_click)
next
  case (ContextMenuAnalyze info a)
  then show ?thesis by (auto simp: requests_contextMenus)
qed

text \<open>
  C1, amended. Every request a client operation issues goes to an endpoint of the
  README's API overview, with the method the overview gives, or is one of the two posts
  to \<open>/api/v1/history/review\<close> and \<open>/api/v1/analyze/batch\<close>, which the overview does
  not list.
\<close>

theorem requests_documented_or_listed:
  "set (map endpoint (requests (run b c)))
     \<subseteq> set api_overview
        \<union> {(''/api/v1/history/review'', POST), (''/api/v1/analyze/batch'', POST)}
   \<and> ''/api/v1/history/review'' \<notin> fst ` set api_overview
   \<and> ''/api/v1/analyze/batch'' \<notin> fst ` set api_overview"
  using endpoints_allowed [of b c] by (simp add: allowed_def api_overview_def)

subsection \<open>C2: requests in flight\<close>




subsection \<open>C3: failed requests\<close>

lemma trim_hi: "trim ''hi'' = ''hi''"
  by (simp add: trim_def trimStart_def trimEnd_def strip.simps white_space_def)

text \<open>
  C3 as stated says that a component neither retries a failed request nor substitutes
  behaviour of its own. The second half fails: when the chat request is rejected, the
  catch branch of \<open>send\<close> puts a message of its own into the log, as the bot's; when the
  analysis is rejected, the catch branch of \<open>handleAnalyze\<close> sets a verdict of its own.
\<close>

theorem fallback_counterexample:
  "cp_log (fst (send 5 7 (Rejected None) (ChatPage_init\<lparr>cp_input := ''hi''\<rparr>) a_browser))
     = [\<lparr>msg_from = User, msg_text = ''hi'', msg_id = 5\<rparr>,
        \<lparr>msg_from = Bot, msg_text = apology, msg_id = 8\<rparr>]
   \<and> hp_verdict (fst (handleAnalyze (Rejected None) (Rejected None) Home_init a_browser))
       = ''Error''"
  by (simp add: send_def send_begin_def send_settle_def ChatPage_init_def trim_hi
        handleAnalyze_def handleAnalyze_begin_def handleAnalyze_settle_def Home_init_def)

lemma no_request_twice: "distinct (requests (run b c))"
proof (cases c)
  case (SignupSubmit p a)
  then show ?thesis by (simp add: requests_submit)
next
  case (LoginSubmit p a)
  then show ?thesis by (simp add: requests_login_submit)
next
  case (ChatSendMessage now now' p a)
  then show ?thesis by (simp add: requests_send)
next
  case (HomeAnalyze p a sa)
  then show ?thesis by (cases a) (simp_all add: requests_handleAnalyze)
next
  case (DashboardMount p a sa)
  then show ?thesis by (cases a) (simp_all add: requests_Dashboard_mount requests_load)
next
  case (DashboardReview p ident correct ra a sa)
  then show ?thesis by (cases ra; cases a) (simp_all add: requests_handleReview requests_load)
next
  case (BulkAnalyzeAll p a)
  then show ?thesis by (simp add: requests_analyze)
next
  case (PopupAnalyze results a)
  then show ?thesis by (cases results) (simp_all add: requests_popup_click)
next
  case (ContextMenuAnalyze info a)
  then show ?thesis by (simp add: requests_contextMenus)
qed

text \<open>
  C3, amended. No operation issues a request twice, so a failed request is not retried.
  When the chat request fails, \<open>send\<close> appends a fixed apology to the log as a message
  of the bot and clears the loading flag; when the analysis fails, \<open>handleAnalyze\<close> logs
  the error, sets the verdict \<open>Error\<close> and a fixed error block, empties the scores and
  the sources and clears the loading flag. Neither issues a further request.
\<close>

theorem failure_handling:
  "distinct (requests (run b c))
   \<and> (trim (cp_input p) \<noteq> [] \<and> \<not> cp_loading p \<longrightarrow>
        send now now' (Rejected e) p b =
          (p\<lparr> cp_log := cp_log p @ [\<lparr>msg_from = User, msg_text = cp_input p, msg_id = now\<rparr>,
                                     \<lparr>msg_from = Bot, msg_text = apology, msg_id = now' + 1\<rparr>],
              cp_input := [], cp_loading := False \<rparr>,
           [Fetch (chatAI_request (cp_input p) b)]))
   \<and> handleAnalyze (Rejected e) sa h b =
        (h\<lparr> hp_verdict := ''Error'',
            hp_html := ''<div style='' @ [CHR 0x27] @ ''color:red'' @ [CHR 0x27]
                        @ ''>Backend error</div>'',
            hp_prob := Map.empty, hp_sources := [], hp_loading := False \<rparr>,
         [Fetch (api_post b ''/api/v1/analyze'' (JObj [(''text'', JStr (hp_input h))])),
          ConsoleError])"
proof (intro conjI impI)
  show "distinct (requests (run b c))" by (rule no_request_twice)
next
  assume "trim (cp_input p) \<noteq> [] \<and> \<not> cp_loading p"
  then show "send now now' (Rejected e) p b =
          (p\<lparr> cp_log := cp_log p @ [\<lparr>msg_from = User, msg_text = cp_input p, msg_id = now\<rparr>,
                                     \<lparr>msg_from = Bot, msg_text = apology, msg_id = now' + 1\<rparr>],
              cp_input := [], cp_loading := False \<rparr>,
           [Fetch (chatAI_request (cp_input p) b)])"
    by (simp add: send_def send_begin_def send_settle_def)
next
  show "handleAnalyze (Rejected e) sa h b =
        (h\<lparr> hp_verdict := ''Error'',
            hp_html := ''<div style='' @ [CHR 0x27] @ ''color:red'' @ [CHR 0x27]
                        @ ''>Backend error</div>'',
            hp_prob := Map.empty, hp_sources := [], hp_loading := False \<rparr>,
         [Fetch (api_post b ''/api/v1/analyze'' (JObj [(''text'', JStr (hp_input h))])),
          ConsoleError])"
    by (simp add: handleAnalyze_def handleAnalyze_begin_def handleAnalyze_settle_def)
qed

theorem failure_handling_witness:
  "trim (cp_input (ChatPage_init\<lparr>cp_input := ''hi''\<rparr>)) \<noteq> []
   \<and> \<not> cp_loading (ChatPage_init\<lparr>cp_input := ''hi''\<rparr>)
   \<and> send 5 7 (Rejected None) (ChatPage_init\<lparr>cp_input := ''hi''\<rparr>) a_browser =
       (ChatPage_init\<lparr> cp_log := [\<lparr>msg_from = User, msg_text = ''hi'', msg_id = 5\<rparr>,
                                   \<lparr>msg_from = Bot, msg_text = apology, msg_id = 8\<rparr>] \<rparr>,
        [Fetch (chatAI_request ''hi'' a_browser)])"
proof -
  have g: "trim (cp_input (ChatPage_init\<lparr>cp_input := ''hi''\<rparr>)) \<noteq> []
           \<and> \<not> cp_loading (ChatPage_init\<lparr>cp_input := ''hi''\<rparr>)"
    by (simp add: ChatPage_init_def trim_hi)
  from failure_handling
         [of a_browser "PopupAnalyze [] (Rejected None)" "ChatPage_init\<lparr>cp_input := ''hi''\<rparr>"
             5 7 None "Rejected None" Home_init]
  have "send 5 7 (Rejected None) (ChatPage_init\<lparr>cp_input := ''hi''\<rparr>) a_browser =
       ((ChatPage_init\<lparr>cp_input := ''hi''\<rparr>)
          \<lparr> cp_log := cp_log (ChatPage_init\<lparr>cp_input := ''hi''\<rparr>)
                       @ [\<lparr>msg_from = User,
                           msg_text = cp_input (ChatPage_init\<lparr>cp_input := ''hi''\<rparr>),
                           msg_id = 5\<rparr>,
                          \<lparr>msg_from = Bot, msg_text = apology, msg_id = 7 + 1\<rparr>],
             cp_input := [], cp_loading := False \<rparr>,
        [Fetch (chatAI_request (cp_input (ChatPage_init\<lparr>cp_input := ''hi''\<rparr>)) a_browser)])"
    using g by blast
  then show ?thesis using g by (simp add: ChatPage_init_def)
qed

subsection \<open>C4: the browser extension\<close>

text \<open>
  C4. An analyze action of the extension, on the text \<open>t\<close> of the page (popup) or of
  the selection (context menu), issues one request: a POST to the path
  \<open>/api/v1/analyze\<close> whose JSON body has the member \<open>text\<close> with value \<open>t\<close>. When the
  response is a JSON object, the popup shows and the notification says the values of its
  members \<open>verdict\<close> and \<open>confidence\<close>.
\<close>

theorem extension_posts_and_presents:
  "popup_click (t # rest) (Resolved (JObj fs)) =
     [Fetch (extension_request (Some t)),
      SetInnerHTML ''result''
        [Lit ([CHR 0x0A] @ ''      <h3>''), Interp (map_of fs ''verdict''),
         Lit (''</h3>'' @ [CHR 0x0A] @ ''      <p>Confidence: ''),
         Interp (map_of fs ''confidence''),
         Lit (''%</p>'' @ [CHR 0x0A] @ ''    '')]]
   \<and> contextMenus_onClicked \<lparr>menuItemId = ''analyzeText'', selectionText = Some t\<rparr>
         (Resolved (JObj fs)) =
     [Fetch (extension_request (Some t)),
      Notification ''VeriGlow Analysis''
        [Interp (map_of fs ''verdict''), Lit '' ('', Interp (map_of fs ''confidence''),
         Lit ''%)'']]
   \<and> requests (popup_click (t # rest) answer) = [extension_request (Some t)]
   \<and> requests (contextMenus_onClicked
                  \<lparr>menuItemId = ''analyzeText'', selectionText = Some t\<rparr> answer)
       = [extension_request (Some t)]
   \<and> req_method (extension_request (Some t)) = POST
   \<and> request_path (extension_request (Some t)) = ''/api/v1/analyze''
   \<and> req_data (extension_request (Some t)) = Some (JObj [(''text'', JStr t)])
   \<and> req_headers (extension_request (Some t)) = [(''Content-Type'', ''application/json'')]"
  by (auto simp: popup_click_def contextMenus_onClicked_def popup_html_def
        notification_message_def extension_request_def request_path_def url_path_def
      split: outcome.splits json.splits)

subsection \<open>C5: loading the dashboard\<close>

text \<open>
  C5. Every \<open>load\<close> of the dashboard first issues a GET to \<open>/api/v1/history\<close>. When
  the history arrives, the page shows one entry for each record returned, in order, and
  the entry of a record shows its query, its verdict and, to one decimal place, its
  confidence. All that \<open>load\<close> does to the outside is to issue GET requests: it posts
  nothing and writes nothing to \<open>localStorage\<close>.
\<close>

theorem dashboard_load:
  fixes d :: "Item list option" and sa :: "StatsResponse outcome" and p :: dashboard_page
    and b :: browser
  defines "items \<equiv> (case d of None \<Rightarrow> [] | Some xs \<Rightarrow> xs)"
      and "view \<equiv> Dashboard (fst (snd (load (Resolved d) sa p b)))"
  shows "take 1 (snd (snd (load answer sa p b))) = [Fetch (api_get b ''/api/v1/history'')]
       \<and> req_method (api_get b ''/api/v1/history'') = GET
       \<and> request_path (api_get b ''/api/v1/history'') = ''/api/v1/history''
       \<and> history_list view = map HistoryItem items
       \<and> length (history_list view) = length items
       \<and> (\<forall>i < length items.
             history_query (history_list view ! i) = [Lit (item_query (items ! i))]
           \<and> Lit (item_verdict (items ! i)) \<in> set (history_meta (history_list view ! i))
           \<and> (\<forall>c. item_confidence (items ! i) = Some c \<longrightarrow>
                  Fixed1 c \<in> set (history_meta (history_list view ! i))))
       \<and> (\<forall>e \<in> set (snd (snd (load answer sa p b))). \<exists>r. e = Fetch r \<and> req_method r = GET)"
  unfolding items_def view_def
  by (auto simp: load_def getStats_def Dashboard_def HistoryItem_def request_path_def
        url_path_def Let_def
      split: outcome.splits option.splits prod.splits sum.splits)

theorem dashboard_load_witness:
  "(0::nat) < length [an_item]
   \<and> item_confidence ([an_item] ! 0) = Some (875 / 10)
   \<and> history_list (Dashboard (fst (snd (load (Resolved (Some [an_item])) (Rejected None)
                                           Dashboard_init a_browser))))
       = [HistoryItem an_item]
   \<and> history_query (HistoryItem an_item) = [Lit ''Is it true?'']
   \<and> Lit ''Fake'' \<in> set (history_meta (HistoryItem an_item))
   \<and> Fixed1 (875 / 10) \<in> set (history_meta (HistoryItem an_item))
   \<and> snd (snd (load (Resolved (Some [an_item])) (Rejected None) Dashboard_init a_browser))
       = [Fetch (api_get a_browser ''/api/v1/history''),
          Fetch (api_get a_browser ''/api/v1/stats'')]"
  using dashboard_load [where d = "Some [an_item]" and sa = "Rejected None"
                          and p = Dashboard_init and b = a_browser
                          and answer = "Resolved (Some [an_item])"]
  by (simp add: load_def getStats_def an_item_def HistoryItem_def)

subsection \<open>C6: signing up\<close>

text \<open>
  C6. A submission of the signup form issues exactly one request, whatever the answer:
  a POST to \<open>/api/v1/auth/signup\<close> whose body carries the name, the email and the
  password entered in the form and the language preference, which \<open>submit\<close> passes as
  \<open>en\<close> (the form has no field for it). On a successful answer, in
  the browser, the access token and the refresh token of the response are stored in
  \<open>localStorage\<close>, and only then the router goes to \<open>/\<close>.
\<close>

theorem signup_submit:
  "requests (fst (snd (submit answer p b))) =
     [api_post b ''/api/v1/auth/signup''
        (JObj [(''name'', JStr (sp_name p)), (''email'', JStr (sp_email p)),
               (''password'', JStr (sp_pw p)), (''language_pref'', JStr ''en'')])]
   \<and> map endpoint (requests (fst (snd (submit answer p b)))) = [(''/api/v1/auth/signup'', POST)]
   \<and> (window_defined b \<longrightarrow>
        fst (snd (submit (Resolved d) p b)) =
          [Fetch (api_post b ''/api/v1/auth/signup''
                    (JObj [(''name'', JStr (sp_name p)), (''email'', JStr (sp_email p)),
                           (''password'', JStr (sp_pw p)), (''language_pref'', JStr ''en'')])),
           SetItem ''access_token'' (access_token d),
           SetItem ''refresh_token'' (refresh_token d),
           RouterPush ''/'']
        \<and> localStorage (snd (snd (submit (Resolved d) p b))) ''access_token''
            = Some (access_token d)
        \<and> localStorage (snd (snd (submit (Resolved d) p b))) ''refresh_token''
            = Some (refresh_token d))"
  by (auto simp: submit_def signup_def signup_body_def saveTokens_def Let_def
      split: outcome.splits option.splits prod.splits sum.splits)

theorem signup_submit_witness:
  "window_defined a_browser
   \<and> fst (snd (submit (Resolved some_tokens) a_signup_page a_browser)) =
       [Fetch (api_post a_browser ''/api/v1/auth/signup''
                 (JObj [(''name'', JStr ''Ann''), (''email'', JStr ''ann@example.org''),
                        (''password'', JStr ''secret''), (''language_pref'', JStr ''en'')])),
        SetItem ''access_token'' ''AT'',
        SetItem ''refresh_token'' ''RT'',
        RouterPush ''/'']
   \<and> localStorage (snd (snd (submit (Resolved some_tokens) a_signup_page a_browser)))
        ''access_token'' = Some ''AT''
   \<and> localStorage (snd (snd (submit (Resolved some_tokens) a_signup_page a_browser)))
        ''refresh_token'' = Some ''RT''"
proof -
  have w: "window_defined a_browser" by (simp add: a_browser_def)
  from signup_submit [of "Resolved some_tokens" a_signup_page a_browser some_tokens] w
  show ?thesis by (simp add: a_signup_page_def some_tokens_def)
qed

subsection \<open>C7: the authenticity meter\<close>

text \<open>
  C7. For every score, the width of the meter fill is \<open>max(0, min(100, score))\<close> percent,
  which lies between 0 and 100 whatever the score is, and the label has the good colour
  exactly when the score itself, not the clamped one, is at least 50.
\<close>

theorem AuthMeter_width_and_colour:
  "fill_width (AuthMeter score label) = max 0 (min 100 score)
   \<and> 0 \<le> fill_width (AuthMeter score label)
   \<and> fill_width (AuthMeter score label) \<le> 100
   \<and> (label_color (AuthMeter score label) = ''var(--good)'') = (50 \<le> score)"
  by (simp add: AuthMeter_def clamped_def)

subsection \<open>C8: the label and the score of the home page\<close>

lemma rhe_error: "\<bar>of_int (round_half_even q) - q\<bar> \<le> 1 / 2"
proof -
  have "of_int \<lfloor>q\<rfloor> \<le> q" "q < of_int \<lfloor>q\<rfloor> + 1" by linarith+
  then show ?thesis by (auto simp: round_half_even_def Let_def)
qed

lemma nearest_error: "\<bar>nearest x - x\<bar> \<le> ulp x / 2"
proof -
  have "\<bar>nearest x - x\<bar> = \<bar>of_int (round_half_even (x / ulp x)) - x / ulp x\<bar> * ulp x"
  proof -
    have "ulp x \<noteq> 0" using ulp_pos [of x] by linarith
    then have "nearest x - x = (of_int (round_half_even (x / ulp x)) - x / ulp x) * ulp x"
      by (simp add: nearest_def left_diff_distrib)
    then show ?thesis using ulp_nonneg [of x] by (simp add: abs_mult)
  qed
  also have "\<dots> \<le> 1 / 2 * ulp x"
    using rhe_error [of "x / ulp x"] ulp_nonneg [of x] by (rule mult_right_mono)
  finally show ?thesis by simp
qed

lemma ulp_le:
  assumes "0 < x"
  shows "ulp x \<le> x / 2 ^ 52 + 1 / 2 ^ 1074"
proof (cases "- 1022 \<le> binade x")
  case True
  from assms have "2 powi binade x \<le> x" by (rule binade_bounds)
  then have "2 ^ 52 * ulp x \<le> x" by (simp add: pow2_ulp_lo [OF True])
  then have "ulp x \<le> x / 2 ^ 52" by (simp add: pos_le_divide_eq mult.commute)
  then show ?thesis by (rule order_trans) simp
next
  case False
  then have "max (binade x) (- 1022) - 52 = - 1074" by simp
  then have "ulp x = 2 powi (- 1074)" by (simp only: ulp_def)
  also have "\<dots> = 1 / 2 ^ 1074" by (simp add: power_int_def field_simps)
  finally show ?thesis using assms by simp
qed

lemma fl_error:
  assumes "0 \<le> x" "x \<le> 2 ^ 1023"
  shows "\<bar>fl x - x\<bar> \<le> x / 2 ^ 53 + 1 / 2 ^ 1075"
proof (cases "x = 0")
  case True
  then show ?thesis by (simp add: fl_def)
next
  case False
  with assms(1) have pos: "0 < x" by simp
  have p: "(2::rat) ^ 1023 = 2 powi 1023" by simp
  have "2 powi binade x \<le> x" using pos by (rule binade_bounds)
  also note assms(2)
  finally have "(2::rat) powi binade x \<le> 2 powi 1023" by (simp only: p)
  then have "binade x \<le> 1023" by (rule power_int_le_imp_le_exp [rotated]) simp_all
  then have "max (binade x) (- 1022) + 1 \<le> 1024" by simp
  then have "(2::rat) powi (max (binade x) (- 1022) + 1) \<le> 2 powi 1024"
    by (intro power_int_increasing) simp_all
  with nearest_le [OF pos] have "nearest x \<le> 2 ^ 1024" by simp
  then have "fl x = nearest x" using pos by (simp add: fl_def round_double_def)
  moreover have "ulp x / 2 \<le> x / 2 ^ 53 + 1 / 2 ^ 1075"
    using ulp_le [OF pos] by simp
  ultimately show ?thesis using nearest_error [of x] by simp
qed

lemma fl_below_35: "fl (3152519739159347 / 9007199254740992 * 100) = 35"
  by code_simp

lemma fl_above_35: "fl (6305039478318695 / 18014398509481984 * 100) = 35"
  by code_simp

lemma fl_75: "fl 75 = 75"
  by code_simp

lemma fl_25: "fl 25 = 25"
  by code_simp

lemma prob_after_analysis:
  "hp_prob (fst (handleAnalyze (Resolved res) sa p b)) =
     (case ar_scores res of None \<Rightarrow> Map.empty | Some m \<Rightarrow> m)"
  by (simp add: handleAnalyze_def handleAnalyze_begin_def handleAnalyze_settle_def
        getStats_def Let_def
      split: outcome.splits)

lemma verdict_after_analysis:
  "hp_verdict (fst (handleAnalyze (Resolved res) sa p b)) = ar_verdict res"
  by (simp add: handleAnalyze_def handleAnalyze_begin_def handleAnalyze_settle_def
        getStats_def Let_def
      split: outcome.splits)

text \<open>
  C8 as stated says that the label is \<open>Real\<close> only if the score of \<open>Real News\<close> is at
  least the score of \<open>Fake News\<close>. It fails for two scores next to each other: for the
  doubles that 0.35 and 0.35000000000000003 denote, both products by 100 round to 35, so
  the comparison of the products holds and the label is \<open>Real\<close>, although the score of
  \<open>Real News\<close> is the smaller one.
\<close>

theorem rounded_scores_counterexample:
  "meterLabel
     (hp_prob (fst (handleAnalyze (Resolved close_scores) (Rejected None)
                      (Home_init\<lparr>hp_input := ''news''\<rparr>) a_browser)))
     = ''Real''
   \<and> ar_scores close_scores =
       Some [''Real News'' \<mapsto> 3152519739159347 / 9007199254740992,
             ''Fake News'' \<mapsto> 6305039478318695 / 18014398509481984]
   \<and> (3152519739159347 / 9007199254740992 :: rat) < 6305039478318695 / 18014398509481984"
proof -
  let ?m = "[''Real News'' \<mapsto> 3152519739159347 / 9007199254740992 :: rat,
             ''Fake News'' \<mapsto> 6305039478318695 / 18014398509481984]"
  have m: "ar_scores close_scores = Some ?m" by (simp add: close_scores_def)
  have "?m ''Real News'' = Some (3152519739159347 / 9007199254740992)" by simp
  then have r: "realScore ?m = fl (3152519739159347 / 9007199254740992 * 100)"
    by (simp only: realScore_def js_mul_def nullish_def option.case)
  have "?m ''Fake News'' = Some (6305039478318695 / 18014398509481984)" by simp
  then have f: "fakeScore ?m = fl (6305039478318695 / 18014398509481984 * 100)"
    by (simp only: fakeScore_def js_mul_def nullish_def option.case)
  have "isReal ?m" by (simp only: isReal_def r f fl_below_35 fl_above_35 order_refl)
  then have "meterLabel ?m = ''Real''" by (simp only: meterLabel_def if_True)
  moreover have "hp_prob (fst (handleAnalyze (Resolved close_scores) (Rejected None)
                      (Home_init\<lparr>hp_input := ''news''\<rparr>) a_browser)) = ?m"
    by (simp only: prob_after_analysis m option.case)
  ultimately show ?thesis using m by simp
qed

text \<open>
  C8, amended. After a successful analysis, with \<open>r\<close> the score of \<open>Real News\<close> in the
  response and \<open>f\<close> the score of \<open>Fake News\<close>, each 0 when it is absent or when the
  response has no scores: the label of the meter is \<open>Real\<close> exactly when the double
  product of \<open>r\<close> by 100 is at least the double product of \<open>f\<close> by 100, and \<open>Fake\<close>
  otherwise. So the label is \<open>Real\<close> whenever \<open>r \<ge> f\<close>, on a tie and for two missing
  scores in particular, and the label \<open>Fake\<close> means \<open>r < f\<close>; but \<open>r\<close> a little below
  \<open>f\<close> gives \<open>Real\<close> too when both products round to the same double. The score of
  the meter is the double product of the larger of \<open>r\<close> and \<open>f\<close> by 100, which is that
  product up to the rounding of a double, and that is what the meter shows once a verdict
  is set.
\<close>

theorem home_label_and_score:
  fixes res :: AnalyzeResponse and sa :: "StatsResponse outcome" and p :: home_page
    and b :: browser
  defines "r \<equiv> (case ar_scores res of
                  None \<Rightarrow> 0
                | Some m \<Rightarrow> (case m ''Real News'' of None \<Rightarrow> 0 | Some v \<Rightarrow> v))"
      and "f \<equiv> (case ar_scores res of
                  None \<Rightarrow> 0
                | Some m \<Rightarrow> (case m ''Fake News'' of None \<Rightarrow> 0 | Some v \<Rightarrow> v))"
      and "p' \<equiv> fst (handleAnalyze (Resolved res) sa p b)"
  shows "(meterLabel (hp_prob p') = ''Real'') = (js_mul r 100 \<ge> js_mul f 100)
       \<and> (meterLabel (hp_prob p') = ''Fake'') = (js_mul r 100 < js_mul f 100)
       \<and> (r \<ge> f \<longrightarrow> meterLabel (hp_prob p') = ''Real'')
       \<and> (meterLabel (hp_prob p') = ''Fake'' \<longrightarrow> r < f)
       \<and> meterScore (hp_prob p') = js_mul (max r f) 100
       \<and> (0 \<le> max r f \<and> max r f * 100 \<le> 2 ^ 1023 \<longrightarrow>
            \<bar>meterScore (hp_prob p') - max r f * 100\<bar> \<le> max r f * 100 / 2 ^ 53 + 1 / 2 ^ 1075)
       \<and> Home_meter p' =
           (if ar_verdict res = [] then None
            else Some (AuthMeter (js_mul (max r f) 100)
                         [Lit (if js_mul r 100 \<ge> js_mul f 100 then ''Real'' else ''Fake''),
                          Lit ('' '' @ bullet @ '' ''),
                          Fixed1 (js_mul (max r f) 100), Lit ''%'']))
       \<and> meterLabel Map.empty = ''Real''
       \<and> meterLabel [''Real News'' \<mapsto> x, ''Fake News'' \<mapsto> x] = ''Real''"
proof -
  have rs: "realScore (hp_prob p') = js_mul r 100"
    by (simp add: p'_def r_def prob_after_analysis realScore_def nullish_def
        split: option.splits)
  have fs: "fakeScore (hp_prob p') = js_mul f 100"
    by (simp add: p'_def f_def prob_after_analysis fakeScore_def nullish_def
        split: option.splits)
  have mono: "js_mul f 100 \<le> js_mul r 100" if "f \<le> r"
    using that by (simp add: js_mul_def fl_mono)
  have mx: "max (js_mul r 100) (js_mul f 100) = js_mul (max r f) 100"
  proof -
    have "max (r * 100) (f * 100) = max r f * 100" by (simp add: max_def)
    then show ?thesis by (simp add: js_mul_def fl_max)
  qed
  have label: "(meterLabel (hp_prob p') = ''Real'') = (js_mul r 100 \<ge> js_mul f 100)"
    "(meterLabel (hp_prob p') = ''Fake'') = (js_mul r 100 < js_mul f 100)"
    by (auto simp: meterLabel_def isReal_def rs fs)
  have "meterScore (hp_prob p') = max (js_mul r 100) (js_mul f 100)"
    by (auto simp: meterScore_def isReal_def rs fs max_def)
  then have score: "meterScore (hp_prob p') = js_mul (max r f) 100"
    by (simp only: mx)
  have imp: "r \<ge> f \<longrightarrow> meterLabel (hp_prob p') = ''Real''"
    "meterLabel (hp_prob p') = ''Fake'' \<longrightarrow> r < f"
    using mono label by force+
  have err: "0 \<le> max r f \<and> max r f * 100 \<le> 2 ^ 1023 \<longrightarrow>
      \<bar>meterScore (hp_prob p') - max r f * 100\<bar> \<le> max r f * 100 / 2 ^ 53 + 1 / 2 ^ 1075"
  proof
    assume a: "0 \<le> max r f \<and> max r f * 100 \<le> 2 ^ 1023"
    then have "0 \<le> max r f * 100" by simp
    from fl_error [OF this] a show
      "\<bar>meterScore (hp_prob p') - max r f * 100\<bar> \<le> max r f * 100 / 2 ^ 53 + 1 / 2 ^ 1075"
      by (simp add: score js_mul_def)
  qed
  have meter: "Home_meter p' =
           (if ar_verdict res = [] then None
            else Some (AuthMeter (js_mul (max r f) 100)
                         [Lit (if js_mul r 100 \<ge> js_mul f 100 then ''Real'' else ''Fake''),
                          Lit ('' '' @ bullet @ '' ''),
                          Fixed1 (js_mul (max r f) 100), Lit ''%'']))"
  proof -
    have v: "hp_verdict p' = ar_verdict res" by (simp add: p'_def verdict_after_analysis)
    have ml: "meterLabel (hp_prob p') =
        (if js_mul r 100 \<ge> js_mul f 100 then ''Real'' else ''Fake'')"
      using label(1) by (auto simp: meterLabel_def)
    show ?thesis by (simp add: Home_meter_def v score ml)
  qed
  have special: "meterLabel Map.empty = ''Real''"
    "meterLabel [''Real News'' \<mapsto> x, ''Fake News'' \<mapsto> x] = ''Real''"
    by (simp_all add: meterLabel_def isReal_def realScore_def fakeScore_def nullish_def)
  from label imp score err meter special show ?thesis by blast
qed

theorem home_label_and_score_witness:
  "(1 / 4 :: rat) \<le> 3 / 4
   \<and> (0 :: rat) \<le> max (3 / 4) (1 / 4) \<and> max (3 / 4) (1 / 4) * 100 \<le> (2 :: rat) ^ 1023
   \<and> meterLabel (hp_prob (fst (handleAnalyze (Resolved clear_scores) (Rejected None)
                                  (Home_init\<lparr>hp_input := ''news''\<rparr>) a_browser)))
       = ''Real''
   \<and> meterScore (hp_prob (fst (handleAnalyze (Resolved clear_scores) (Rejected None)
                                  (Home_init\<lparr>hp_input := ''news''\<rparr>) a_browser)))
       = 75"
  using home_label_and_score
          [where res = clear_scores and sa = "Rejected None"
             and p = "Home_init\<lparr>hp_input := ''news''\<rparr>" and b = a_browser]
  by (simp add: clear_scores_def js_mul_def fl_75 fl_25)

subsection \<open>C9: the Accuracy statistic\<close>


end
